theory Spec2Isabelle
  imports Main "HOL-Library.Code_Target_Nat"
begin

section \<open>JavaScript values and errors\<close>

text \<open>
  Errors that the program throws itself, and errors that come out of the libraries it
  calls (\<open>LibError\<close>, carrying the message). \<open>TypeError\<close> is what the runtime throws
  when a property of \<open>null\<close> or \<open>undefined\<close> is read.
\<close>

datatype error =
    ConnectionBusy        \<comment> \<open>\<open>Error('Connection already in progress')\<close>\<close>
  | NoDeviceFound         \<comment> \<open>\<open>Error('No device found within timeout')\<close>\<close>
  | DeviceNotConnected    \<comment> \<open>\<open>Error('Device not connected')\<close>\<close>
  | TypeError
  | LibError string

text \<open>
  What \<open>JSON.parse\<close> returns, together with \<open>undefined\<close> (the value of a missing
  property). A number is a double, and the handler looks at it in three ways only: it is
  compared with \<open>===\<close>, it is tested for truth, and it is converted to a string. All
  three are functions of the string \<open>String(x)\<close> that JavaScript prints for the number
  (\<open>1\<close> for 1, \<open>72.5\<close>, \<open>1e+21\<close> for \<open>10\<^sup>2\<^sup>1\<close>, \<open>Infinity\<close> for what \<open>JSON.parse\<close>
  makes of \<open>1e999\<close>; \<open>-0\<close> prints as \<open>0\<close>, which it equals), so \<open>JNum\<close> holds that
  string. Strings are lists of code units below 256. An object is the list of its own
  properties.
\<close>

datatype jsval =
    JUndefined
  | JNull
  | JBool bool
  | JNum string
  | JStr string
  | JArr "jsval list"
  | JObj "(string \<times> jsval) list"

text \<open>
  Reading a property \<open>v.k\<close> (also the destructuring \<open>const {k} = v\<close>): a \<open>TypeError\<close> on
  \<open>null\<close> and \<open>undefined\<close>, the member of an object, and \<open>undefined\<close> otherwise. The
  names the program reads (\<open>op\<close>, \<open>d\<close>, \<open>requestType\<close>, \<open>requestId\<close>, \<open>requestData\<close>,
  \<open>inputName\<close>, \<open>inputSettings\<close>, \<open>text\<close>) are no properties of a primitive or an array.
\<close>

fun get_prop :: "jsval \<Rightarrow> string \<Rightarrow> error + jsval" where
  "get_prop JUndefined k = Inl TypeError"
| "get_prop JNull k = Inl TypeError"
| "get_prop (JObj kvs) k = Inr (case map_of kvs k of None \<Rightarrow> JUndefined | Some v \<Rightarrow> v)"
| "get_prop v k = Inr JUndefined"

text \<open>Optional chaining \<open>v?.k\<close>: \<open>undefined\<close> where \<open>v.k\<close> would throw.\<close>

definition get_prop_opt :: "jsval \<Rightarrow> string \<Rightarrow> jsval" where
  "get_prop_opt v k = (case get_prop v k of Inl e \<Rightarrow> JUndefined | Inr x \<Rightarrow> x)"

text \<open>Truthiness, as \<open>&&\<close> and \<open>if\<close> test it.\<close>

fun truthy :: "jsval \<Rightarrow> bool" where
  "truthy JUndefined = False"
| "truthy JNull = False"
| "truthy (JBool b) = b"
| "truthy (JNum s) = (s \<noteq> ''0'' \<and> s \<noteq> ''NaN'')"
| "truthy (JStr s) = (s \<noteq> [])"
| "truthy (JArr xs) = True"
| "truthy (JObj kvs) = True"

subsection \<open>Conversion to string\<close>

fun join_comma :: "string list \<Rightarrow> string" where
  "join_comma [] = []"
| "join_comma [s] = s"
| "join_comma (s # ss) = s @ CHR '','' # join_comma ss"

text \<open>
  \<open>ToString\<close>, which \<open>parseInt\<close> applies to its argument first. An array is joined with
  commas, \<open>null\<close> and \<open>undefined\<close> elements giving the empty string.
\<close>

fun to_string :: "jsval \<Rightarrow> string" where
  "to_string JUndefined = ''undefined''"
| "to_string JNull = ''null''"
| "to_string (JBool b) = (if b then ''true'' else ''false'')"
| "to_string (JNum s) = s"
| "to_string (JStr s) = s"
| "to_string (JArr xs) =
     join_comma (map (\<lambda>x. if x = JUndefined \<or> x = JNull then [] else to_string x) xs)"
| "to_string (JObj kvs) = ''[object Object]''"

subsection \<open>\<open>parseInt(s, 10)\<close>\<close>

text \<open>
  White space that \<open>parseInt\<close> skips, among the code units below 256: tab, line feed,
  vertical tab, form feed, carriage return, space and no-break space.
\<close>

definition is_space :: "char \<Rightarrow> bool" where
  "is_space c = ((of_char c :: nat) \<in> {9, 10, 11, 12, 13, 32, 160})"

definition is_digit :: "char \<Rightarrow> bool" where
  "is_digit c = (48 \<le> (of_char c :: nat) \<and> (of_char c :: nat) \<le> 57)"

definition digits_val :: "string \<Rightarrow> nat" where
  "digits_val z = foldl (\<lambda>a c. 10 * a + (of_char c - 48)) 0 z"

text \<open>The text after the leading white space starts with a minus sign.\<close>

definition has_minus :: "string \<Rightarrow> bool" where
  "has_minus s = (case dropWhile is_space s of [] \<Rightarrow> False | c # cs \<Rightarrow> c = CHR ''-'')"

text \<open>
  The numbers that \<open>parseInt\<close> returns apart from \<open>NaN\<close>, and so the values that
  \<open>state.heartRate\<close> takes: the doubles that are whole numbers, and the two infinities.
  \<open>-0\<close> is \<open>Fin 0\<close>, from which no comparison tells it apart.
\<close>

datatype jsnumber = Fin int | PosInfinity | NegInfinity

text \<open>The comparisons \<open>x < t\<close> and \<open>x >= t\<close> of such a number with an integer.\<close>

fun js_less :: "jsnumber \<Rightarrow> int \<Rightarrow> bool" where
  "js_less (Fin n) t = (n < t)"
| "js_less PosInfinity t = False"
| "js_less NegInfinity t = True"

fun js_at_least :: "jsnumber \<Rightarrow> int \<Rightarrow> bool" where
  "js_at_least (Fin n) t = (t \<le> n)"
| "js_at_least PosInfinity t = True"
| "js_at_least NegInfinity t = False"

fun bit_length :: "nat \<Rightarrow> nat" where
  "bit_length n = (if n = 0 then 0 else Suc (bit_length (n div 2)))"

text \<open>
  The double nearest to a natural number, ties to the even significand: a number below
  \<open>2\<^sup>5\<^sup>3\<close> is a double; a longer one keeps its 53 leading bits, rounded. \<open>None\<close> is
  the overflow to \<open>Infinity\<close>.
\<close>

definition round_double :: "nat \<Rightarrow> nat option" where
  "round_double n =
     (if n < 2 ^ 53 then Some n
      else
        let k = bit_length n - 53;
            q = n div 2 ^ k;
            r = n mod 2 ^ k;
            h = 2 ^ (k - 1);
            q' = (if h < r \<or> (r = h \<and> odd q) then q + 1 else q);
            v = q' * 2 ^ k
        in if 2 ^ 1024 \<le> v then None else Some v)"

definition to_number :: "bool \<Rightarrow> nat \<Rightarrow> jsnumber" where
  "to_number neg n =
     (case round_double n of
        None \<Rightarrow> if neg then NegInfinity else PosInfinity
      | Some m \<Rightarrow> Fin (if neg then - int m else int m))"

text \<open>
  \<open>parseInt\<close> with radix 10: skip white space, read a sign, take the longest prefix of
  decimal digits; \<open>NaN\<close> (here \<open>None\<close>) when there is no digit. With radix 10 no \<open>0x\<close>
  prefix is stripped. The result is the Number value of the signed integer read.
\<close>

definition js_parseInt :: "string \<Rightarrow> jsnumber option" where
  "js_parseInt s =
     (let t = dropWhile is_space s;
          u = (case t of [] \<Rightarrow> [] | c # cs \<Rightarrow> if c = CHR ''+'' \<or> c = CHR ''-'' then cs else t);
          z = takeWhile is_digit u
      in if z = [] then None
         else Some (to_number (has_minus s) (digits_val z)))"

section \<open>Program state\<close>

text \<open>
  The calls the program makes to the outside world, in the order it makes them: to the
  device and the client of the actuator library, to the timers, to the protocol socket and
  listener, to the dashboard, to the child process and to the process itself.
\<close>

datatype call =
    ClientConnect             \<comment> \<open>\<open>client.connect(connector)\<close>\<close>
  | StartScanning             \<comment> \<open>\<open>client.startScanning()\<close>\<close>
  | StopScanning              \<comment> \<open>\<open>client.stopScanning()\<close>\<close>
  | ClientDisconnect          \<comment> \<open>\<open>client.disconnect()\<close>\<close>
  | DeviceVibrate             \<comment> \<open>\<open>device.vibrate(1.0)\<close>\<close>
  | DeviceStop                \<comment> \<open>\<open>device.stop()\<close>\<close>
  | SetTimeoutRetry           \<comment> \<open>\<open>setTimeout(connectWithRetry, RETRY_DELAY_MS)\<close>\<close>
  | ClearInterval             \<comment> \<open>\<open>clearInterval(mainInterval)\<close>\<close>
  | WsSend jsval              \<comment> \<open>\<open>ws.send(JSON.stringify(v))\<close>, with the object \<open>v\<close>\<close>
  | UpdateUIStatus jsnumber string \<comment> \<open>\<open>updateUIStatus(heartRate, vibrationState)\<close>\<close>
  | WssClose                  \<comment> \<open>\<open>wss.close(resolve)\<close>\<close>
  | ProcKill                  \<comment> \<open>\<open>buttplugProc.kill()\<close>\<close>
  | ProcessExit nat           \<comment> \<open>\<open>process.exit(code)\<close>\<close>

text \<open>
  The mutable variables of the program: the fields of \<open>state\<close> in the main module; the
  module variables \<open>client\<close> and \<open>device\<close> and the fields of \<open>connectionStatus\<close> in
  \<open>bp.js\<close>. \<open>client\<close> is \<open>None\<close> for \<open>null\<close> and otherwise holds the library's
  \<open>client.connected\<close>; \<open>device\<close> holds the device's name. \<open>buttplugProc\<close> tells whether
  \<open>startButtplugServer\<close> returned a process. \<open>pendingRetries\<close> counts the retry timers that
  are set and have not fired, and \<open>calls\<close> is the log of calls made so far.
\<close>

record world =
  heartRate :: jsnumber
  vibrationState :: string
  connectRetries :: nat
  shutdownInProgress :: bool
  client :: "bool option"
  device :: "string option"
  isConnecting :: bool
  isConnected :: bool
  lastError :: "error option"
  buttplugProc :: bool
  pendingRetries :: nat
  calls :: "call list"

definition CONNECTION_RETRIES :: nat where
  "CONNECTION_RETRIES = 5"

definition HR_THRESHOLD :: int where
  "HR_THRESHOLD = 100"

definition do_call :: "call \<Rightarrow> world \<Rightarrow> world" where
  "do_call c w = w\<lparr>calls := calls w @ [c]\<rparr>"

section \<open>The actuator module \<open>bp.js\<close>\<close>

text \<open>
  \<open>isReady\<close> returns the value of \<open>client && client.connected && device !== null\<close>:
  \<open>null\<close> when there is no client, \<open>false\<close> when the client is not connected, and
  otherwise whether there is a device. Its callers test the truth of that value.
\<close>

definition isReady :: "world \<Rightarrow> jsval" where
  "isReady w =
     (case client w of
        None \<Rightarrow> JNull
      | Some connected \<Rightarrow> if connected then JBool (device w \<noteq> None) else JBool False)"

text \<open>
  \<open>on\<close> and \<open>off\<close>. The first argument is how the awaited device command ends:
  \<open>None\<close> when it resolves, \<open>Some e\<close> when it rejects with \<open>e\<close>, which is thrown again.
  The result is the error thrown, if any.
\<close>

definition on :: "error option \<Rightarrow> world \<Rightarrow> error option \<times> world" where
  "on r w = (if \<not> truthy (isReady w) then (Some DeviceNotConnected, w)
             else (r, do_call DeviceVibrate w))"

definition off :: "error option \<Rightarrow> world \<Rightarrow> error option \<times> world" where
  "off r w = (if \<not> truthy (isReady w) then (Some DeviceNotConnected, w)
              else (r, do_call DeviceStop w))"

text \<open>
  \<open>safeDisconnect\<close>. Both awaited calls may reject (\<open>stop_r\<close>, \<open>disc_r\<close>); the inner
  \<open>catch\<close> swallows the first and the outer the second, and \<open>finally\<close> clears the module
  whenever there was a client. It never throws.
\<close>

definition safeDisconnect :: "error option \<times> error option \<Rightarrow> world \<Rightarrow> world" where
  "safeDisconnect env w =
     (case env of (stop_r, disc_r) \<Rightarrow>
        if client w = None then w
        else
          let w1 = (if device w \<noteq> None then do_call DeviceStop w else w);
              w2 = (if client w1 = Some True then do_call ClientDisconnect w1 else w1)
          in w2\<lparr>client := None, device := None, isConnected := False\<rparr>)"

definition disconnectButtplug :: "error option \<times> error option \<Rightarrow> world \<Rightarrow> world" where
  "disconnectButtplug env w = safeDisconnect env w"

text \<open>
  \<open>connectToButtplug\<close> up to its first \<open>await\<close>: it throws when an attempt is in flight,
  returns when the client is connected, and otherwise marks the attempt, creates the
  client and starts connecting.
\<close>

datatype started = Threw error | Returned | Suspended

definition connectToButtplug_start :: "world \<Rightarrow> started \<times> world" where
  "connectToButtplug_start w =
     (if isConnecting w then (Threw ConnectionBusy, w)
      else if client w = Some True then (Returned, w)
      else (Suspended,
            do_call ClientConnect
              (w\<lparr>isConnecting := True, lastError := None, client := Some False\<rparr>)))"

text \<open>How the awaited part of an attempt ends.\<close>

datatype attempt =
    ConnectRejects error    \<comment> \<open>\<open>client.connect\<close> rejects\<close>
  | ScanRejects error       \<comment> \<open>\<open>client.startScanning\<close> rejects\<close>
  | DiscoveryTimeout        \<comment> \<open>the timer of \<open>waitForDevice\<close> fires first\<close>
  | DeviceAdded string      \<comment> \<open>the client emits \<open>deviceadded\<close> with this device\<close>

text \<open>The \<open>catch\<close> and \<open>finally\<close> blocks of \<open>connectToButtplug\<close> for a thrown \<open>e\<close>.\<close>

definition connect_catch ::
  "error \<Rightarrow> error option \<times> error option \<Rightarrow> world \<Rightarrow> error option \<times> world" where
  "connect_catch e env w =
     (let w1 = safeDisconnect env (w\<lparr>lastError := Some e\<rparr>)
      in (Some e, w1\<lparr>isConnecting := False\<rparr>))"

text \<open>
  \<open>connectToButtplug\<close> from its first \<open>await\<close> on. When \<open>client.connect\<close> resolves the
  library has set \<open>client.connected\<close>; \<open>client.startScanning()\<close> reads the module
  variable again, which is \<open>null\<close> if the module was disconnected in the meantime. On
  success \<open>isConnected\<close> is set and the \<open>finally\<close> block clears \<open>isConnecting\<close> with
  no \<open>await\<close> between the two, so they are one step here.
\<close>

definition scanning :: "world \<Rightarrow> world" where
  "scanning w = do_call StartScanning (w\<lparr>client := Some True\<rparr>)"

fun connectToButtplug_resume ::
  "attempt \<Rightarrow> error option \<times> error option \<Rightarrow> world \<Rightarrow> error option \<times> world" where
  "connectToButtplug_resume (ConnectRejects e) env w = connect_catch e env w"
| "connectToButtplug_resume (ScanRejects e) env w =
     (if client w = None then connect_catch TypeError env w
      else connect_catch e env (scanning w))"
| "connectToButtplug_resume DiscoveryTimeout env w =
     (if client w = None then connect_catch TypeError env w
      else connect_catch NoDeviceFound env (do_call StopScanning (scanning w)))"
| "connectToButtplug_resume (DeviceAdded d) env w =
     (if client w = None then connect_catch TypeError env w
      else (None, (do_call StopScanning (scanning w))
                    \<lparr>device := Some d, isConnected := True, isConnecting := False\<rparr>))"

text \<open>A whole call of \<open>connectToButtplug\<close>, with nothing else running in between.\<close>

definition connectToButtplug ::
  "attempt \<Rightarrow> error option \<times> error option \<Rightarrow> world \<Rightarrow> error option \<times> world" where
  "connectToButtplug a env w =
     (case connectToButtplug_start w of
        (Threw e, w1) \<Rightarrow> (Some e, w1)
      | (Returned, w1) \<Rightarrow> (None, w1)
      | (Suspended, w1) \<Rightarrow> connectToButtplug_resume a env w1)"

section \<open>The main module\<close>

text \<open>
  Every handler below runs from the event that starts it to its end, the calls it awaits
  having ended the way its arguments say. The one exception is a connection attempt,
  whose start and whose end are two events, so that the state while the attempt is in
  flight is a state of the model.
\<close>

subsection \<open>\<open>connectWithRetry\<close>\<close>

text \<open>The \<open>catch\<close> block: count the failure and set the retry timer while below the maximum.\<close>

definition connectWithRetry_catch :: "world \<Rightarrow> world" where
  "connectWithRetry_catch w =
     (let w1 = w\<lparr>connectRetries := connectRetries w + 1\<rparr>
      in if connectRetries w1 < CONNECTION_RETRIES
         then do_call SetTimeoutRetry (w1\<lparr>pendingRetries := pendingRetries w1 + 1\<rparr>)
         else w1)"

definition connectWithRetry_start :: "world \<Rightarrow> world" where
  "connectWithRetry_start w =
     (if shutdownInProgress w then w
      else case connectToButtplug_start w of
             (Threw e, w1) \<Rightarrow> connectWithRetry_catch w1
           | (Returned, w1) \<Rightarrow> w1\<lparr>connectRetries := 0\<rparr>
           | (Suspended, w1) \<Rightarrow> w1)"

definition connectWithRetry_resume ::
  "attempt \<Rightarrow> error option \<times> error option \<Rightarrow> world \<Rightarrow> world" where
  "connectWithRetry_resume a env w =
     (case connectToButtplug_resume a env w of
        (None, w1) \<Rightarrow> w1\<lparr>connectRetries := 0\<rparr>
      | (Some e, w1) \<Rightarrow> connectWithRetry_catch w1)"

subsection \<open>\<open>handleUIControl\<close> and \<open>processHeartRate\<close>\<close>

definition handleUIControl :: "string \<Rightarrow> error option \<Rightarrow> world \<Rightarrow> bool \<times> world" where
  "handleUIControl action r w =
     (if \<not> truthy (isReady w) then (False, w)
      else if action = ''on'' then
        (case on r w of
           (Some e, w1) \<Rightarrow> (False, w1)
         | (None, w1) \<Rightarrow>
             (True, do_call (UpdateUIStatus (heartRate w1) ''on'') (w1\<lparr>vibrationState := ''on''\<rparr>)))
      else if action = ''off'' then
        (case off r w of
           (Some e, w1) \<Rightarrow> (False, w1)
         | (None, w1) \<Rightarrow>
             (True, do_call (UpdateUIStatus (heartRate w1) ''off'') (w1\<lparr>vibrationState := ''off''\<rparr>)))
      else (True, do_call (UpdateUIStatus (heartRate w) (vibrationState w)) w))"

text \<open>One tick. An error of the device command is caught and logged, nothing else.\<close>

definition processHeartRate :: "error option \<Rightarrow> world \<Rightarrow> world" where
  "processHeartRate r w =
     (if \<not> truthy (isReady w) \<or> shutdownInProgress w then w
      else if js_less (heartRate w) HR_THRESHOLD \<and> vibrationState w \<noteq> ''on'' then
        (case on r w of
           (Some e, w1) \<Rightarrow> w1
         | (None, w1) \<Rightarrow>
             do_call (UpdateUIStatus (heartRate w1) ''on'') (w1\<lparr>vibrationState := ''on''\<rparr>))
      else if js_at_least (heartRate w) HR_THRESHOLD \<and> vibrationState w \<noteq> ''off'' then
        (case off r w of
           (Some e, w1) \<Rightarrow> w1
         | (None, w1) \<Rightarrow>
             do_call (UpdateUIStatus (heartRate w1) ''off'') (w1\<lparr>vibrationState := ''off''\<rparr>))
      else w)"

text \<open>Consecutive ticks, one for each outcome in the list.\<close>

definition ticks :: "error option list \<Rightarrow> world \<Rightarrow> world" where
  "ticks rs w = foldl (\<lambda>v r. processHeartRate r v) w rs"

subsection \<open>The message handler of the protocol server\<close>

definition identified :: jsval where
  "identified = JObj [(''op'', JNum ''2''), (''d'', JObj [(''negotiatedRpcVersion'', JNum ''1'')])]"

text \<open>
  The object the handler serialises as its response. A member that is \<open>undefined\<close> is
  left out by \<open>JSON.stringify\<close>.
\<close>

definition request_response :: "jsval \<Rightarrow> jsval \<Rightarrow> jsval" where
  "request_response rt rid =
     JObj [(''op'', JNum ''7''),
           (''d'', JObj [(''requestType'', rt), (''requestId'', rid),
                         (''requestStatus'', JObj [(''result'', JBool True), (''code'', JNum ''100'')])])]"

text \<open>The body of \<open>if (inputName === 'heartrate' && inputSettings?.text)\<close>.\<close>

definition update_heartRate :: "jsval \<Rightarrow> jsval \<Rightarrow> world \<Rightarrow> world" where
  "update_heartRate inputName inputSettings w =
     (let text = get_prop_opt inputSettings ''text''
      in if inputName = JStr ''heartrate'' \<and> truthy text then
           (case js_parseInt (to_string text) of
              None \<Rightarrow> w
            | Some hr \<Rightarrow> do_call (UpdateUIStatus hr (vibrationState w)) (w\<lparr>heartRate := hr\<rparr>))
         else w)"

text \<open>
  The handler of \<open>ws.on('message')\<close>. Its first argument is what \<open>JSON.parse\<close> made of
  the data, \<open>None\<close> when it threw. The result is the error the handler throws, if any.
\<close>

definition onMessage :: "jsval option \<Rightarrow> world \<Rightarrow> error option \<times> world" where
  "onMessage parsed w =
     (case parsed of
        None \<Rightarrow> (None, w)
      | Some msg \<Rightarrow>
          (case get_prop msg ''op'' of
             Inl e \<Rightarrow> (Some e, w)
           | Inr op \<Rightarrow>
          (case get_prop msg ''d'' of
             Inl e \<Rightarrow> (Some e, w)
           | Inr d \<Rightarrow>
               if op = JNum ''1'' then (None, do_call (WsSend identified) w)
               else if op \<noteq> JNum ''6'' then (None, w)
               else
          (case get_prop d ''requestType'' of
             Inl e \<Rightarrow> (Some e, w)
           | Inr rt \<Rightarrow>
               if rt \<noteq> JStr ''SetInputSettings'' then (None, w)
               else
          (case get_prop d ''requestData'' of
             Inl e \<Rightarrow> (Some e, w)
           | Inr rd \<Rightarrow>
          (case get_prop rd ''inputName'' of
             Inl e \<Rightarrow> (Some e, w)
           | Inr inputName \<Rightarrow>
          (case get_prop rd ''inputSettings'' of
             Inl e \<Rightarrow> (Some e, w)
           | Inr inputSettings \<Rightarrow>
               (None,
                do_call (WsSend (request_response rt (get_prop_opt d ''requestId'')))
                  (update_heartRate inputName inputSettings w)))))))))"

subsection \<open>\<open>gracefulShutdown\<close>\<close>

text \<open>
  How the teardown calls end: \<open>off_r\<close> for the device command of \<open>off\<close>, \<open>disc_env\<close> for
  the two calls of \<open>safeDisconnect\<close>, \<open>close_r\<close> and \<open>kill_r\<close> for an error thrown by
  \<open>wss.close\<close> and by \<open>buttplugProc.kill\<close>.
\<close>

record teardown =
  off_r :: "error option"
  disc_env :: "error option \<times> error option"
  close_r :: "error option"
  kill_r :: "error option"

definition gracefulShutdown :: "teardown \<Rightarrow> world \<Rightarrow> world" where
  "gracefulShutdown env w =
     (if shutdownInProgress w then w
      else
        let w0 = do_call ClearInterval (w\<lparr>shutdownInProgress := True\<rparr>)
        in case (if truthy (isReady w0) \<and> vibrationState w0 = ''on'' then off (off_r env) w0
                 else (None, w0)) of
             (Some e, w1) \<Rightarrow> do_call (ProcessExit 1) w1
           | (None, w1) \<Rightarrow>
               let w2 = disconnectButtplug (disc_env env) w1;
                   w3 = do_call WssClose w2
               in (case close_r env of
                     Some e \<Rightarrow> do_call (ProcessExit 1) w3
                   | None \<Rightarrow>
                       if buttplugProc w3 then
                         (case kill_r env of
                            Some e \<Rightarrow> do_call (ProcessExit 1) (do_call ProcKill w3)
                          | None \<Rightarrow> do_call (ProcessExit 0) (do_call ProcKill w3))
                       else do_call (ProcessExit 0) w3))"

section \<open>The event loop\<close>

text \<open>
  The events that start a handler. An exception that escapes the message handler is an
  uncaught exception, whose handler calls \<open>gracefulShutdown\<close>. A retry timer fires only
  if one is set, and an attempt ends only if one is in flight, which is when
  \<open>isConnecting\<close> holds. \<open>ConnectionDropped\<close> is the server closing the connection:
  the library clears \<open>client.connected\<close>. A call of \<open>process.exit\<close> is logged and later
  events are still dispatched, which covers more than the process can do.
\<close>

datatype event =
    Tick "error option"
  | Message "jsval option" teardown
  | UIControl string "error option"
  | RetryTimer
  | AttemptDone attempt "error option \<times> error option"
  | ConnectionDropped
  | Signal teardown

fun dispatch :: "event \<Rightarrow> world \<Rightarrow> world" where
  "dispatch (Tick r) w = processHeartRate r w"
| "dispatch (Message parsed env) w =
     (case onMessage parsed w of
        (None, w1) \<Rightarrow> w1
      | (Some e, w1) \<Rightarrow> gracefulShutdown env w1)"
| "dispatch (UIControl action r) w = snd (handleUIControl action r w)"
| "dispatch RetryTimer w =
     (if pendingRetries w = 0 then w
      else connectWithRetry_start (w\<lparr>pendingRetries := pendingRetries w - 1\<rparr>))"
| "dispatch (AttemptDone a env) w =
     (if isConnecting w then connectWithRetry_resume a env w else w)"
| "dispatch ConnectionDropped w =
     (if client w = Some True then w\<lparr>client := Some False\<rparr> else w)"
| "dispatch (Signal env) w = gracefulShutdown env w"

definition run :: "event list \<Rightarrow> world \<Rightarrow> world" where
  "run evs w = foldl (\<lambda>v ev. dispatch ev v) w evs"

text \<open>
  The state when the module has been loaded: the initial values of the variables, and
  the first call of \<open>connectWithRetry\<close> up to its \<open>await\<close>. The argument tells whether
  the actuator server was spawned.
\<close>

definition world0 :: "bool \<Rightarrow> world" where
  "world0 p =
     \<lparr>heartRate = Fin 0, vibrationState = ''off'', connectRetries = 0,
      shutdownInProgress = False, client = None, device = None, isConnecting = False,
      isConnected = False, lastError = None, buttplugProc = p, pendingRetries = 0,
      calls = []\<rparr>"

definition startup :: "bool \<Rightarrow> world" where
  "startup p = connectWithRetry_start (world0 p)"

section \<open>Observations on states and runs\<close>

text \<open>The calls that a shutdown started in \<open>w\<close> adds to the log.\<close>

definition teardown_calls :: "teardown \<Rightarrow> world \<Rightarrow> call list" where
  "teardown_calls env w = drop (length (calls w)) (calls (gracefulShutdown env w))"







text \<open>The number of connections the program has started.\<close>

definition attempts :: "world \<Rightarrow> nat" where
  "attempts w = count_list (calls w) ClientConnect"

text \<open>The number of teardown sequences the program has started.\<close>

definition teardowns :: "world \<Rightarrow> nat" where
  "teardowns w = count_list (calls w) ClearInterval"

text \<open>
  An attempt that ends in failure, followed by the retry timer: one round of the retry
  chain when every attempt fails.
\<close>

fun fails :: "attempt \<Rightarrow> bool" where
  "fails (DeviceAdded d) = False"
| "fails a = True"

definition failing_round :: "attempt \<times> (error option \<times> error option) \<Rightarrow> event list" where
  "failing_round x = [AttemptDone (fst x) (snd x), RetryTimer]"

text \<open>
  Two invariants of the running program. The first ties the flags of
  \<open>connectionStatus\<close> to the retry timer: a timer is set only while no attempt is in
  flight and nothing is connected, and there is at most one. The second says that without
  a client there is neither a device nor a connection.
\<close>

definition chain_inv :: "world \<Rightarrow> bool" where
  "chain_inv w =
     ((isConnecting w \<longrightarrow> pendingRetries w = 0 \<and> \<not> isConnected w) \<and>
      (isConnected w \<longrightarrow> pendingRetries w = 0) \<and> pendingRetries w \<le> 1)"

definition module_inv :: "world \<Rightarrow> bool" where
  "module_inv w = (client w = None \<longrightarrow> device w = None \<and> \<not> isConnected w)"

section \<open>The control loop\<close>

lemma truthy_isReady: "truthy (isReady w) = (client w = Some True \<and> device w \<noteq> None)"
  by (simp add: isReady_def split: option.splits)

lemma js_at_least_js_less: "js_at_least x t = (\<not> js_less x t)"
  by (cases x) auto

lemma processHeartRate_keeps:
  "heartRate (processHeartRate r w) = heartRate w"
  "isReady (processHeartRate r w) = isReady w"
  "shutdownInProgress (processHeartRate r w) = shutdownInProgress w"
  by (simp_all add: processHeartRate_def on_def off_def do_call_def isReady_def
        split: option.splits)

lemma processHeartRate_succeeded:
  "truthy (isReady w) \<Longrightarrow> \<not> shutdownInProgress w \<Longrightarrow>
   vibrationState (processHeartRate None w) =
     (if js_less (heartRate w) HR_THRESHOLD then ''on'' else ''off'')"
  by (simp add: processHeartRate_def on_def off_def do_call_def js_at_least_js_less)

text \<open>
  C1. With a ready actuator and no shutdown in progress, a tick whose device command
  succeeds leaves \<open>vibrationState\<close> at \<open>'on'\<close> when the sample is below the threshold and
  at \<open>'off'\<close> otherwise, whatever the state was before. The decision is taken from the
  current sample and state at every tick: after a tick whose command failed, the next
  tick reaches the same state.
\<close>

theorem tick_sets_actuation_state:
  assumes "truthy (isReady w)" and "\<not> shutdownInProgress w"
  shows "vibrationState (processHeartRate None w) =
           (if js_less (heartRate w) HR_THRESHOLD then ''on'' else ''off'') \<and>
         vibrationState (processHeartRate None (processHeartRate (Some e) w)) =
           (if js_less (heartRate w) HR_THRESHOLD then ''on'' else ''off'')"
  using assms by (simp add: processHeartRate_succeeded processHeartRate_keeps)

theorem tick_sets_actuation_state_witness:
  "truthy (isReady ((world0 True)\<lparr>client := Some True, device := Some ''toy'',
                                   heartRate := Fin 80\<rparr>)) \<and>
   \<not> shutdownInProgress
       ((world0 True)\<lparr>client := Some True, device := Some ''toy'', heartRate := Fin 80\<rparr>) \<and>
   vibrationState (processHeartRate None
     ((world0 True)\<lparr>client := Some True, device := Some ''toy'', heartRate := Fin 80\<rparr>)) = ''on''"
  using tick_sets_actuation_state
    [of "(world0 True)\<lparr>client := Some True, device := Some ''toy'', heartRate := Fin 80\<rparr>"]
  by (simp add: truthy_isReady world0_def HR_THRESHOLD_def)

lemma processHeartRate_settled:
  "(js_less (heartRate w) HR_THRESHOLD \<and> vibrationState w = ''on'') \<or>
   (js_at_least (heartRate w) HR_THRESHOLD \<and> vibrationState w = ''off'') \<Longrightarrow>
   processHeartRate r w = w"
  by (auto simp add: processHeartRate_def js_at_least_js_less)

text \<open>
  C5. Any number of consecutive ticks on a state whose \<open>vibrationState\<close> already is the
  one the sample asks for leaves the whole state as it was, the log of calls included: no
  \<open>device.vibrate\<close> and no \<open>device.stop\<close> is issued.
\<close>

theorem ticks_idempotent:
  assumes "(js_less (heartRate w) HR_THRESHOLD \<and> vibrationState w = ''on'') \<or>
           (js_at_least (heartRate w) HR_THRESHOLD \<and> vibrationState w = ''off'')"
  shows "ticks rs w = w"
  unfolding ticks_def using assms
  by (induction rs) (simp_all add: processHeartRate_settled)

theorem ticks_idempotent_witness:
  "js_at_least
     (heartRate ((world0 True)\<lparr>client := Some True, device := Some ''toy'',
                               heartRate := Fin 120\<rparr>)) HR_THRESHOLD \<and>
   vibrationState
     ((world0 True)\<lparr>client := Some True, device := Some ''toy'', heartRate := Fin 120\<rparr>) = ''off'' \<and>
   calls (ticks [None, None, None]
     ((world0 True)\<lparr>client := Some True, device := Some ''toy'', heartRate := Fin 120\<rparr>)) = []"
  using ticks_idempotent
    [of "(world0 True)\<lparr>client := Some True, device := Some ''toy'', heartRate := Fin 120\<rparr>"
        "[None, None, None]"]
  by (simp add: world0_def HR_THRESHOLD_def)

section \<open>Shutdown\<close>

lemma disconnectButtplug_env: "disconnectButtplug env w = disconnectButtplug (None, None) w"
  by (simp add: disconnectButtplug_def safeDisconnect_def split: prod.splits)

lemma gracefulShutdown_disc_env:
  "gracefulShutdown (env\<lparr>disc_env := x\<rparr>) w = gracefulShutdown env w"
  by (simp add: gracefulShutdown_def Let_def disconnectButtplug_env [of x]
        disconnectButtplug_env [of "disc_env env"] split: prod.splits option.splits)

lemma teardown_off_fails:
  assumes "\<not> shutdownInProgress w" "truthy (isReady w)" "vibrationState w = ''on''" "off_r env = Some e"
  shows "teardown_calls env w = [ClearInterval, DeviceStop, ProcessExit 1]"
  using assms
  by (simp add: teardown_calls_def gracefulShutdown_def off_def truthy_isReady do_call_def)

lemma teardown_close_fails:
  assumes "\<not> shutdownInProgress w" "\<not> (truthy (isReady w) \<and> vibrationState w = ''on'' \<and> off_r env \<noteq> None)"
    "close_r env = Some e"
  shows "ProcKill \<notin> set (teardown_calls env w) \<and> last (teardown_calls env w) = ProcessExit 1"
  using assms
  by (auto simp add: teardown_calls_def gracefulShutdown_def off_def truthy_isReady do_call_def
      disconnectButtplug_def safeDisconnect_def Let_def split: prod.splits option.splits)

lemma teardown_kill_fails:
  assumes "\<not> shutdownInProgress w" "\<not> (truthy (isReady w) \<and> vibrationState w = ''on'' \<and> off_r env \<noteq> None)"
    "close_r env = None" "buttplugProc w" "kill_r env = Some e"
  shows "last (teardown_calls env w) = ProcessExit 1"
  using assms
  by (auto simp add: teardown_calls_def gracefulShutdown_def off_def truthy_isReady do_call_def
      disconnectButtplug_def safeDisconnect_def Let_def split: prod.splits option.splits)

lemma teardown_no_failure:
  assumes "\<not> shutdownInProgress w" "off_r env = None"
    "close_r env = None" "kill_r env = None"
  shows "last (teardown_calls env w) = ProcessExit 0"
  using assms
  by (auto simp add: teardown_calls_def gracefulShutdown_def off_def truthy_isReady do_call_def
      disconnectButtplug_def safeDisconnect_def Let_def split: prod.splits option.splits)


text \<open>
  C2 (as amended). A teardown step that throws ends the sequence: the steps after it are
  not attempted, and the process exits with code 1. When \<open>off\<close> throws, nothing but
  \<open>process.exit(1)\<close> follows; when \<open>wss.close\<close> throws, the actuator server is not
  killed; when \<open>buttplugProc.kill\<close> throws, the exit code is 1. What the calls inside
  \<open>safeDisconnect\<close> do makes no difference, their errors being caught there.
\<close>

theorem shutdown_stops_at_first_failure:
  assumes "\<not> shutdownInProgress w"
  shows "(truthy (isReady w) \<and> vibrationState w = ''on'' \<and> off_r env \<noteq> None \<longrightarrow>
            teardown_calls env w = [ClearInterval, DeviceStop, ProcessExit 1]) \<and>
         (\<not> (truthy (isReady w) \<and> vibrationState w = ''on'' \<and> off_r env \<noteq> None) \<and> close_r env \<noteq> None \<longrightarrow>
            ProcKill \<notin> set (teardown_calls env w) \<and>
            last (teardown_calls env w) = ProcessExit 1) \<and>
         (\<not> (truthy (isReady w) \<and> vibrationState w = ''on'' \<and> off_r env \<noteq> None) \<and> close_r env = None \<and>
          buttplugProc w \<and> kill_r env \<noteq> None \<longrightarrow>
            last (teardown_calls env w) = ProcessExit 1) \<and>
         teardown_calls (env\<lparr>disc_env := x\<rparr>) w = teardown_calls env w"
proof -
  have "teardown_calls (env\<lparr>disc_env := x\<rparr>) w = teardown_calls env w"
    by (simp add: teardown_calls_def gracefulShutdown_disc_env)
  with assms show ?thesis
    using teardown_off_fails [of w env] teardown_close_fails [of w env]
      teardown_kill_fails [of w env]
    by blast
qed

theorem shutdown_stops_at_first_failure_witness:
  "teardown_calls \<lparr>off_r = Some (LibError ''stop failed''), disc_env = (None, None),
                    close_r = None, kill_r = None\<rparr>
     ((world0 True)\<lparr>client := Some True, device := Some ''toy'', isConnected := True,
                    vibrationState := ''on''\<rparr>) =
     [ClearInterval, DeviceStop, ProcessExit 1] \<and>
   last (teardown_calls \<lparr>off_r = None, disc_env = (None, None),
                    close_r = Some (LibError ''not running''), kill_r = None\<rparr>
     ((world0 True)\<lparr>client := Some True, device := Some ''toy'', isConnected := True,
                    vibrationState := ''on''\<rparr>)) = ProcessExit 1 \<and>
   last (teardown_calls \<lparr>off_r = None, disc_env = (None, None),
                    close_r = None, kill_r = Some (LibError ''no such process'')\<rparr>
     ((world0 True)\<lparr>client := Some True, device := Some ''toy'', isConnected := True,
                    vibrationState := ''on''\<rparr>)) = ProcessExit 1"
  using
    shutdown_stops_at_first_failure
      [of "(world0 True)\<lparr>client := Some True, device := Some ''toy'', isConnected := True,
                    vibrationState := ''on''\<rparr>"
          "\<lparr>off_r = Some (LibError ''stop failed''), disc_env = (None, None),
                    close_r = None, kill_r = None\<rparr>"]
    shutdown_stops_at_first_failure
      [of "(world0 True)\<lparr>client := Some True, device := Some ''toy'', isConnected := True,
                    vibrationState := ''on''\<rparr>"
          "\<lparr>off_r = None, disc_env = (None, None),
                    close_r = Some (LibError ''not running''), kill_r = None\<rparr>"]
    shutdown_stops_at_first_failure
      [of "(world0 True)\<lparr>client := Some True, device := Some ''toy'', isConnected := True,
                    vibrationState := ''on''\<rparr>"
          "\<lparr>off_r = None, disc_env = (None, None),
                    close_r = None, kill_r = Some (LibError ''no such process'')\<rparr>"]
  by (simp add: world0_def truthy_isReady)

text \<open>
  C2 as stated fails: with an engaged device whose \<open>stop\<close> command rejects, the shutdown
  neither disconnects the client nor closes the listener nor kills the actuator server;
  and when it is \<open>client.disconnect\<close> that rejects, the later steps run and the exit code
  is 0.
\<close>

theorem shutdown_skips_steps_counterexample:
  "calls (gracefulShutdown
      \<lparr>off_r = Some (LibError ''stop failed''), disc_env = (None, None),
       close_r = None, kill_r = None\<rparr>
      ((world0 True)\<lparr>client := Some True, device := Some ''toy'', isConnected := True,
                     vibrationState := ''on''\<rparr>)) =
     [ClearInterval, DeviceStop, ProcessExit 1] \<and>
   calls (gracefulShutdown
      \<lparr>off_r = None, disc_env = (None, Some (LibError ''disconnect failed'')),
       close_r = None, kill_r = None\<rparr>
      ((world0 True)\<lparr>client := Some True, device := Some ''toy'', isConnected := True,
                     vibrationState := ''on''\<rparr>)) =
     [ClearInterval, DeviceStop, DeviceStop, ClientDisconnect, WssClose, ProcKill,
      ProcessExit 0]"
  by (simp add: gracefulShutdown_def world0_def truthy_isReady off_def do_call_def
        disconnectButtplug_def safeDisconnect_def)

section \<open>The protocol server\<close>
















section \<open>The heart-rate sample\<close>













lemma run_snoc: "run (evs @ [ev]) w = dispatch ev (run evs w)"
  by (simp add: run_def)



text \<open>
  What \<open>parseInt\<close> returns is a double: of the sixteen digits of \<open>2\<^sup>5\<^sup>3 + 1\<close> it keeps
  \<open>2\<^sup>5\<^sup>3\<close>.
\<close>

lemma js_parseInt_rounds: "js_parseInt ''9007199254740993'' = Some (Fin 9007199254740992)"
  by (simp add: js_parseInt_def has_minus_def is_space_def is_digit_def digits_val_def
        to_number_def round_double_def Let_def)




section \<open>The shutdown latch\<close>

lemma latch_processHeartRate:
  "shutdownInProgress (processHeartRate r w) = shutdownInProgress w"
  "count_list (calls (processHeartRate r w)) ClearInterval = count_list (calls w) ClearInterval"
  by (simp_all add: processHeartRate_def on_def off_def do_call_def
        split: option.splits)

lemma latch_handleUIControl:
  "shutdownInProgress (snd (handleUIControl a r w)) = shutdownInProgress w"
  "count_list (calls (snd (handleUIControl a r w))) ClearInterval =
     count_list (calls w) ClearInterval"
  by (simp_all add: handleUIControl_def on_def off_def do_call_def
        split: option.splits)

lemma latch_update_heartRate:
  "shutdownInProgress (update_heartRate name settings w) = shutdownInProgress w"
  "count_list (calls (update_heartRate name settings w)) ClearInterval =
     count_list (calls w) ClearInterval"
  by (simp_all add: update_heartRate_def Let_def do_call_def
        split: option.splits)

lemma latch_onMessage:
  "shutdownInProgress (snd (onMessage parsed w)) = shutdownInProgress w"
  "count_list (calls (snd (onMessage parsed w))) ClearInterval =
     count_list (calls w) ClearInterval"
  by (simp_all add: onMessage_def do_call_def latch_update_heartRate
        split: option.splits sum.splits)

lemma latch_connect_catch:
  "shutdownInProgress (snd (connect_catch e env w)) = shutdownInProgress w"
  "count_list (calls (snd (connect_catch e env w))) ClearInterval =
     count_list (calls w) ClearInterval"
  by (simp_all add: connect_catch_def Let_def safeDisconnect_def do_call_def
        split: prod.splits)

lemma latch_connectToButtplug_resume:
  "shutdownInProgress (snd (connectToButtplug_resume a env w)) = shutdownInProgress w"
  "count_list (calls (snd (connectToButtplug_resume a env w))) ClearInterval =
     count_list (calls w) ClearInterval"
  by (cases a; simp add: latch_connect_catch scanning_def do_call_def)+

lemma latch_connectWithRetry_catch:
  "shutdownInProgress (connectWithRetry_catch w) = shutdownInProgress w"
  "count_list (calls (connectWithRetry_catch w)) ClearInterval =
     count_list (calls w) ClearInterval"
  by (simp_all add: connectWithRetry_catch_def Let_def do_call_def)

lemma latch_connectWithRetry_resume:
  "shutdownInProgress (connectWithRetry_resume a env w) = shutdownInProgress w"
  "count_list (calls (connectWithRetry_resume a env w)) ClearInterval =
     count_list (calls w) ClearInterval"
  using latch_connectToButtplug_resume [of a env w]
  by (auto simp add: connectWithRetry_resume_def latch_connectWithRetry_catch
        split: prod.splits option.splits)

lemma latch_connectWithRetry_start:
  "shutdownInProgress (connectWithRetry_start w) = shutdownInProgress w"
  "count_list (calls (connectWithRetry_start w)) ClearInterval =
     count_list (calls w) ClearInterval"
  by (simp_all add: connectWithRetry_start_def connectToButtplug_start_def do_call_def
        latch_connectWithRetry_catch)


lemma gracefulShutdown_latched:
  "shutdownInProgress w \<Longrightarrow> gracefulShutdown env w = w"
  by (simp add: gracefulShutdown_def)

lemma latch_safeDisconnect:
  "shutdownInProgress (safeDisconnect env w) = shutdownInProgress w"
  "count_list (calls (safeDisconnect env w)) ClearInterval = count_list (calls w) ClearInterval"
  by (simp_all add: safeDisconnect_def Let_def do_call_def split: prod.splits)

lemma latch_off:
  "shutdownInProgress (snd (off r w)) = shutdownInProgress w"
  "count_list (calls (snd (off r w))) ClearInterval = count_list (calls w) ClearInterval"
  by (simp_all add: off_def do_call_def)

lemma gracefulShutdown_first:
  assumes "\<not> shutdownInProgress w"
  shows "shutdownInProgress (gracefulShutdown env w)"
    and "count_list (calls (gracefulShutdown env w)) ClearInterval =
           count_list (calls w) ClearInterval + 1"
proof -
  let ?w0 = "do_call ClearInterval (w\<lparr>shutdownInProgress := True\<rparr>)"
  let ?r = "if truthy (isReady ?w0) \<and> vibrationState ?w0 = ''on'' then off (off_r env) ?w0
            else (None, ?w0)"
  have r: "shutdownInProgress (snd ?r)"
    "count_list (calls (snd ?r)) ClearInterval = count_list (calls w) ClearInterval + 1"
    by (simp_all add: latch_off) (simp_all add: do_call_def)
  obtain e w1 where p: "?r = (e, w1)"
    by (cases ?r) 
  with r have w1: "shutdownInProgress w1"
    "count_list (calls w1) ClearInterval = count_list (calls w) ClearInterval + 1"
    by simp_all
  have g: "gracefulShutdown env w =
    (case e of Some x \<Rightarrow> do_call (ProcessExit 1) w1
     | None \<Rightarrow>
         let w2 = disconnectButtplug (disc_env env) w1; w3 = do_call WssClose w2
         in (case close_r env of
               Some x \<Rightarrow> do_call (ProcessExit 1) w3
             | None \<Rightarrow>
                 if buttplugProc w3 then
                   (case kill_r env of
                      Some x \<Rightarrow> do_call (ProcessExit 1) (do_call ProcKill w3)
                    | None \<Rightarrow> do_call (ProcessExit 0) (do_call ProcKill w3))
                 else do_call (ProcessExit 0) w3))"
    using assms p by (simp add: gracefulShutdown_def Let_def)
  show "shutdownInProgress (gracefulShutdown env w)"
    unfolding g using w1(1)
    by (simp add: Let_def do_call_def disconnectButtplug_def latch_safeDisconnect
          split: option.splits)
  show "count_list (calls (gracefulShutdown env w)) ClearInterval =
           count_list (calls w) ClearInterval + 1"
    unfolding g using w1(2)
    by (simp add: Let_def do_call_def disconnectButtplug_def latch_safeDisconnect
          split: option.splits)
qed

lemma dispatch_latched:
  assumes "shutdownInProgress w"
  shows "shutdownInProgress (dispatch ev w) \<and>
         count_list (calls (dispatch ev w)) ClearInterval = count_list (calls w) ClearInterval"
proof (cases ev)
  case (Message parsed env)
  with assms show ?thesis
    using latch_onMessage [of parsed w]
    by (auto simp add: gracefulShutdown_latched split: prod.splits option.splits)
qed (use assms in \<open>simp_all add: latch_processHeartRate latch_handleUIControl
      latch_connectWithRetry_start latch_connectWithRetry_resume gracefulShutdown_latched\<close>)

lemma dispatch_teardowns:
  assumes "if shutdownInProgress w then count_list (calls w) ClearInterval \<le> 1
           else count_list (calls w) ClearInterval = 0"
  shows "if shutdownInProgress (dispatch ev w)
         then count_list (calls (dispatch ev w)) ClearInterval \<le> 1
         else count_list (calls (dispatch ev w)) ClearInterval = 0"
proof (cases "shutdownInProgress w")
  case True
  with assms dispatch_latched [of w ev] show ?thesis by simp
next
  case False
  show ?thesis
  proof (cases ev)
    case (Message parsed env)
    with assms False show ?thesis
      using latch_onMessage [of parsed w]
        gracefulShutdown_first [of "snd (onMessage parsed w)" env]
      by (auto split: prod.splits option.splits)
  next
    case (Signal env)
    with assms False show ?thesis
      by (simp add: gracefulShutdown_first)
  qed (use assms False in \<open>simp_all add: latch_processHeartRate latch_handleUIControl
        latch_connectWithRetry_start latch_connectWithRetry_resume\<close>)
qed

lemma run_latched:
  "shutdownInProgress w \<Longrightarrow>
   shutdownInProgress (run evs w) \<and>
   count_list (calls (run evs w)) ClearInterval = count_list (calls w) ClearInterval"
proof (induction evs rule: rev_induct)
  case Nil
  then show ?case by (simp add: run_def)
next
  case (snoc ev evs)
  then show ?case
    using dispatch_latched [of "run evs w" ev] by (simp add: run_snoc)
qed

lemma run_teardowns:
  "if shutdownInProgress (run evs (startup p))
   then count_list (calls (run evs (startup p))) ClearInterval \<le> 1
   else count_list (calls (run evs (startup p))) ClearInterval = 0"
proof (induction evs rule: rev_induct)
  case Nil
  show ?case
    by (simp add: run_def startup_def connectWithRetry_start_def connectToButtplug_start_def
          world0_def do_call_def)
next
  case (snoc ev evs)
  then show ?case
    using dispatch_teardowns [of "run evs (startup p)" ev] by (simp only: run_snoc)
qed

text \<open>
  C4. Once \<open>shutdownInProgress\<close> is set, \<open>gracefulShutdown\<close> returns the state as it is,
  no event resets the flag, and no event starts another teardown. From the start of the
  program, whatever the events, the teardown sequence is entered at most once.
\<close>

theorem shutdown_latch:
  "(shutdownInProgress w \<longrightarrow>
      gracefulShutdown env w = w \<and> shutdownInProgress (run evs w) \<and>
      teardowns (run evs w) = teardowns w) \<and>
   teardowns (run evs (startup p)) \<le> 1"
  unfolding teardowns_def
  using gracefulShutdown_latched [of w env] run_latched [of w evs] run_teardowns [of evs p]
  by (auto split: if_splits)

theorem shutdown_latch_witness:
  "shutdownInProgress ((world0 True)\<lparr>shutdownInProgress := True\<rparr>) \<and>
   gracefulShutdown \<lparr>off_r = None, disc_env = (None, None), close_r = None, kill_r = None\<rparr>
     ((world0 True)\<lparr>shutdownInProgress := True\<rparr>) =
     (world0 True)\<lparr>shutdownInProgress := True\<rparr> \<and>
   teardowns (run [Signal \<lparr>off_r = None, disc_env = (None, None), close_r = None,
                           kill_r = None\<rparr>]
     ((world0 True)\<lparr>shutdownInProgress := True\<rparr>)) = 0"
  using shutdown_latch
    [of "(world0 True)\<lparr>shutdownInProgress := True\<rparr>"
        "\<lparr>off_r = None, disc_env = (None, None), close_r = None, kill_r = None\<rparr>"
        "[Signal \<lparr>off_r = None, disc_env = (None, None), close_r = None, kill_r = None\<rparr>]"]
  by (simp add: world0_def teardowns_def)

section \<open>The retry chain\<close>

lemma connect_catch_fields:
  "fst (connect_catch e env w) = Some e"
  "client (snd (connect_catch e env w)) = None"
  "\<not> isConnecting (snd (connect_catch e env w))"
  "pendingRetries (snd (connect_catch e env w)) = pendingRetries w"
  "connectRetries (snd (connect_catch e env w)) = connectRetries w"
  "shutdownInProgress (snd (connect_catch e env w)) = shutdownInProgress w"
  "count_list (calls (snd (connect_catch e env w))) ClientConnect =
     count_list (calls w) ClientConnect"
  by (simp_all add: connect_catch_def Let_def safeDisconnect_def do_call_def
        split: prod.splits)

lemma connectToButtplug_resume_fails:
  assumes "fails a"
  shows "fst (connectToButtplug_resume a env w) \<noteq> None"
    and "client (snd (connectToButtplug_resume a env w)) = None"
    and "\<not> isConnecting (snd (connectToButtplug_resume a env w))"
    and "pendingRetries (snd (connectToButtplug_resume a env w)) = pendingRetries w"
    and "connectRetries (snd (connectToButtplug_resume a env w)) = connectRetries w"
    and "shutdownInProgress (snd (connectToButtplug_resume a env w)) = shutdownInProgress w"
    and "count_list (calls (snd (connectToButtplug_resume a env w))) ClientConnect =
           count_list (calls w) ClientConnect"
  using assms
  by (cases a; simp add: connect_catch_fields scanning_def do_call_def)+

lemma failed_attempt:
  assumes "fails a" and "isConnecting w" and "pendingRetries w = 0"
  shows "client (dispatch (AttemptDone a env) w) = None"
    and "\<not> isConnecting (dispatch (AttemptDone a env) w)"
    and "connectRetries (dispatch (AttemptDone a env) w) = connectRetries w + 1"
    and "pendingRetries (dispatch (AttemptDone a env) w) =
           (if connectRetries w + 1 < CONNECTION_RETRIES then 1 else 0)"
    and "shutdownInProgress (dispatch (AttemptDone a env) w) = shutdownInProgress w"
    and "attempts (dispatch (AttemptDone a env) w) = attempts w"
proof -
  obtain r w1 where p: "connectToButtplug_resume a env w = (r, w1)"
    by (cases "connectToButtplug_resume a env w")
  with connectToButtplug_resume_fails [OF assms(1), of env w]
  obtain e where r: "r = Some e" and w1: "client w1 = None" "\<not> isConnecting w1"
    "pendingRetries w1 = pendingRetries w" "connectRetries w1 = connectRetries w"
    "shutdownInProgress w1 = shutdownInProgress w"
    "count_list (calls w1) ClientConnect = count_list (calls w) ClientConnect"
    by auto
  have d: "dispatch (AttemptDone a env) w = connectWithRetry_catch w1"
    using assms(2) p r by (simp add: connectWithRetry_resume_def)
  show "client (dispatch (AttemptDone a env) w) = None"
    and "\<not> isConnecting (dispatch (AttemptDone a env) w)"
    and "connectRetries (dispatch (AttemptDone a env) w) = connectRetries w + 1"
    and "pendingRetries (dispatch (AttemptDone a env) w) =
           (if connectRetries w + 1 < CONNECTION_RETRIES then 1 else 0)"
    and "shutdownInProgress (dispatch (AttemptDone a env) w) = shutdownInProgress w"
    and "attempts (dispatch (AttemptDone a env) w) = attempts w"
    unfolding d attempts_def using w1 assms(3)
    by (simp_all add: connectWithRetry_catch_def Let_def do_call_def)
qed

lemma retry_timer_fires:
  assumes "pendingRetries w = 1" and "\<not> isConnecting w" and "client w = None"
    and "\<not> shutdownInProgress w"
  shows "isConnecting (dispatch RetryTimer w)"
    and "pendingRetries (dispatch RetryTimer w) = 0"
    and "connectRetries (dispatch RetryTimer w) = connectRetries w"
    and "\<not> shutdownInProgress (dispatch RetryTimer w)"
    and "attempts (dispatch RetryTimer w) = attempts w + 1"
  using assms
  by (simp_all add: connectWithRetry_start_def connectToButtplug_start_def do_call_def
        attempts_def)

lemma retry_timer_idle: "pendingRetries w = 0 \<Longrightarrow> dispatch RetryTimer w = w"
  by simp

lemma attempt_done_idle: "\<not> isConnecting w \<Longrightarrow> dispatch (AttemptDone a env) w = w"
  by simp

lemma run_append: "run (xs @ ys) w = run ys (run xs w)"
  by (simp add: run_def)

lemma run_failing_round:
  "run (failing_round x) w = dispatch RetryTimer (dispatch (AttemptDone (fst x) (snd x)) w)"
  by (simp add: run_def failing_round_def)

lemma round_continues:
  assumes "fails (fst x)" and "\<not> shutdownInProgress w" and "isConnecting w"
    and "pendingRetries w = 0" and "connectRetries w + 1 < CONNECTION_RETRIES"
  shows "\<not> shutdownInProgress (run (failing_round x) w) \<and>
         isConnecting (run (failing_round x) w) \<and>
         pendingRetries (run (failing_round x) w) = 0 \<and>
         connectRetries (run (failing_round x) w) = connectRetries w + 1 \<and>
         attempts (run (failing_round x) w) = attempts w + 1"
  unfolding run_failing_round
  using failed_attempt [OF assms(1,3,4), of "snd x"] assms(2,5)
    retry_timer_fires [of "dispatch (AttemptDone (fst x) (snd x)) w"]
  by simp

lemma round_stops:
  assumes "fails (fst x)" and "isConnecting w"
    and "pendingRetries w = 0" and "\<not> connectRetries w + 1 < CONNECTION_RETRIES"
  shows "\<not> isConnecting (run (failing_round x) w) \<and>
         pendingRetries (run (failing_round x) w) = 0 \<and>
         connectRetries (run (failing_round x) w) = connectRetries w + 1 \<and>
         attempts (run (failing_round x) w) = attempts w"
  unfolding run_failing_round
  using failed_attempt [OF assms(1,2,3), of "snd x"] assms(4)
    retry_timer_idle [of "dispatch (AttemptDone (fst x) (snd x)) w"]
  by simp

lemma round_idle:
  assumes "\<not> isConnecting w" and "pendingRetries w = 0"
  shows "run (failing_round x) w = w"
  unfolding run_failing_round using assms by simp

lemma rounds_idle:
  assumes "\<not> isConnecting w" and "pendingRetries w = 0"
  shows "run (concat (map failing_round fs)) w = w"
proof (induction fs)
  case Nil
  show ?case by (simp add: run_def)
next
  case (Cons x fs)
  with assms show ?case by (simp add: run_append round_idle)
qed

lemma retry_chain:
  assumes "\<forall>x \<in> set fs. fails (fst x)" and "\<not> shutdownInProgress w" and "isConnecting w"
    and "pendingRetries w = 0" and "connectRetries w < CONNECTION_RETRIES"
  shows "if connectRetries w + length fs < CONNECTION_RETRIES
         then \<not> shutdownInProgress (run (concat (map failing_round fs)) w) \<and>
              isConnecting (run (concat (map failing_round fs)) w) \<and>
              pendingRetries (run (concat (map failing_round fs)) w) = 0 \<and>
              connectRetries (run (concat (map failing_round fs)) w) =
                connectRetries w + length fs \<and>
              attempts (run (concat (map failing_round fs)) w) = attempts w + length fs
         else \<not> isConnecting (run (concat (map failing_round fs)) w) \<and>
              pendingRetries (run (concat (map failing_round fs)) w) = 0 \<and>
              connectRetries (run (concat (map failing_round fs)) w) = CONNECTION_RETRIES \<and>
              attempts (run (concat (map failing_round fs)) w) =
                attempts w + (CONNECTION_RETRIES - 1 - connectRetries w)"
  using assms
proof (induction fs arbitrary: w)
  case Nil
  then show ?case by (simp add: run_def)
next
  case (Cons x fs)
  let ?w1 = "run (failing_round x) w"
  have run: "run (concat (map failing_round (x # fs))) w =
             run (concat (map failing_round fs)) ?w1"
    by (simp add: run_append)
  from Cons.prems have fx: "fails (fst x)" and ffs: "\<forall>x \<in> set fs. fails (fst x)"
    by simp_all
  show ?case
  proof (cases "connectRetries w + 1 < CONNECTION_RETRIES")
    case True
    from round_continues [OF fx Cons.prems(2,3,4) True]
    have w1: "\<not> shutdownInProgress ?w1" "isConnecting ?w1" "pendingRetries ?w1 = 0"
      "connectRetries ?w1 = connectRetries w + 1" "attempts ?w1 = attempts w + 1"
      by simp_all
    from True w1(4) have "connectRetries ?w1 < CONNECTION_RETRIES" by simp
    from Cons.IH [OF ffs w1(1,2,3) this] True show ?thesis
      unfolding run w1(4,5) by (auto split: if_splits)
  next
    case False
    from round_stops [OF fx Cons.prems(3,4) False]
    have w1: "\<not> isConnecting ?w1" "pendingRetries ?w1 = 0"
      "connectRetries ?w1 = connectRetries w + 1" "attempts ?w1 = attempts w"
      by simp_all
    from False Cons.prems(5) have "connectRetries w + 1 = CONNECTION_RETRIES" by simp
    with w1 show ?thesis
      unfolding run by (simp add: rounds_idle [OF w1(1,2)])
  qed
qed

lemma startup_chain:
  "\<not> shutdownInProgress (startup p)" "isConnecting (startup p)"
  "pendingRetries (startup p) = 0" "connectRetries (startup p) = 0"
  "attempts (startup p) = 1"
  by (simp_all add: startup_def connectWithRetry_start_def connectToButtplug_start_def
        world0_def do_call_def attempts_def)

lemma success_resets_counter:
  "fst (connectToButtplug_resume a env w) = None \<Longrightarrow>
   connectRetries (connectWithRetry_resume a env w) = 0"
  by (cases "connectToButtplug_resume a env w") (simp add: connectWithRetry_resume_def)

lemma idle_processHeartRate:
  "isConnecting (processHeartRate r w) = isConnecting w"
  "pendingRetries (processHeartRate r w) = pendingRetries w"
  "count_list (calls (processHeartRate r w)) ClientConnect = count_list (calls w) ClientConnect"
  by (simp_all add: processHeartRate_def on_def off_def do_call_def split: option.splits)

lemma idle_handleUIControl:
  "isConnecting (snd (handleUIControl a r w)) = isConnecting w"
  "pendingRetries (snd (handleUIControl a r w)) = pendingRetries w"
  "count_list (calls (snd (handleUIControl a r w))) ClientConnect =
     count_list (calls w) ClientConnect"
  by (simp_all add: handleUIControl_def on_def off_def do_call_def split: option.splits)

lemma idle_update_heartRate:
  "isConnecting (update_heartRate name settings w) = isConnecting w"
  "pendingRetries (update_heartRate name settings w) = pendingRetries w"
  "count_list (calls (update_heartRate name settings w)) ClientConnect =
     count_list (calls w) ClientConnect"
  by (simp_all add: update_heartRate_def Let_def do_call_def split: option.splits)

lemma idle_onMessage:
  "isConnecting (snd (onMessage parsed w)) = isConnecting w"
  "pendingRetries (snd (onMessage parsed w)) = pendingRetries w"
  "count_list (calls (snd (onMessage parsed w))) ClientConnect =
     count_list (calls w) ClientConnect"
  by (simp_all add: onMessage_def do_call_def idle_update_heartRate
        split: option.splits sum.splits)

lemma idle_safeDisconnect:
  "isConnecting (safeDisconnect env w) = isConnecting w"
  "pendingRetries (safeDisconnect env w) = pendingRetries w"
  "count_list (calls (safeDisconnect env w)) ClientConnect = count_list (calls w) ClientConnect"
  by (simp_all add: safeDisconnect_def Let_def do_call_def split: prod.splits)

lemma idle_gracefulShutdown:
  "isConnecting (gracefulShutdown env w) = isConnecting w"
  "pendingRetries (gracefulShutdown env w) = pendingRetries w"
  "count_list (calls (gracefulShutdown env w)) ClientConnect =
     count_list (calls w) ClientConnect"
  by (simp_all add: gracefulShutdown_def Let_def off_def do_call_def disconnectButtplug_def
        idle_safeDisconnect split: option.splits)

lemma idle_dispatch:
  assumes "\<not> isConnecting w" and "pendingRetries w = 0"
  shows "\<not> isConnecting (dispatch ev w) \<and> pendingRetries (dispatch ev w) = 0 \<and>
         attempts (dispatch ev w) = attempts w"
proof (cases ev)
  case (Message parsed env)
  obtain r w1 where p: "onMessage parsed w = (r, w1)"
    by (cases "onMessage parsed w")
  with idle_onMessage [of parsed w] assms
  have "\<not> isConnecting w1" "pendingRetries w1 = 0"
    "count_list (calls w1) ClientConnect = count_list (calls w) ClientConnect"
    by simp_all
  with Message p show ?thesis
    by (cases r) (simp_all add: attempts_def idle_gracefulShutdown)
qed (use assms in \<open>simp_all add: attempts_def idle_processHeartRate idle_handleUIControl
      idle_gracefulShutdown\<close>)

lemma idle_run:
  assumes "\<not> isConnecting w" and "pendingRetries w = 0"
  shows "\<not> isConnecting (run evs w) \<and> pendingRetries (run evs w) = 0 \<and>
         attempts (run evs w) = attempts w"
proof (induction evs rule: rev_induct)
  case Nil
  with assms show ?case by (simp add: run_def)
next
  case (snoc ev evs)
  then show ?case
    using idle_dispatch [of "run evs w" ev] by (simp add: run_snoc)
qed

text \<open>
  C7. When every attempt fails, the chain of attempts and retry timers that starts with
  the program makes \<open>CONNECTION_RETRIES\<close> attempts: after \<open>n\<close> failures the counter is
  \<open>n\<close> and, while \<open>n\<close> is below the maximum, attempt \<open>n + 1\<close> is in flight; at the maximum
  no attempt is in flight and no timer is set. From a state with no attempt in flight
  and no timer set, no event starts an attempt. An attempt that succeeds sets the
  counter to zero.
\<close>

theorem retry_bound:
  "((\<forall>x \<in> set fs. fails (fst x)) \<longrightarrow>
      attempts (run (concat (map failing_round fs)) (startup p)) =
        min (length fs + 1) CONNECTION_RETRIES \<and>
      connectRetries (run (concat (map failing_round fs)) (startup p)) =
        min (length fs) CONNECTION_RETRIES \<and>
      (CONNECTION_RETRIES \<le> length fs \<longrightarrow>
         \<not> isConnecting (run (concat (map failing_round fs)) (startup p)) \<and>
         pendingRetries (run (concat (map failing_round fs)) (startup p)) = 0)) \<and>
   (\<not> isConnecting v \<and> pendingRetries v = 0 \<longrightarrow> attempts (run evs v) = attempts v) \<and>
   (fst (connectToButtplug_resume a env w) = None \<longrightarrow>
      connectRetries (connectWithRetry_resume a env w) = 0)"
proof -
  have pos: "0 < CONNECTION_RETRIES" by (simp add: CONNECTION_RETRIES_def)
  have "connectRetries (startup p) < CONNECTION_RETRIES"
    by (simp add: startup_chain pos)
  from retry_chain [OF _ startup_chain(1,2,3) this, of fs] pos idle_run [of v evs]
  show ?thesis
    by (auto simp add: startup_chain success_resets_counter split: if_splits)
qed

theorem retry_bound_witness:
  "attempts (run (concat (map failing_round
      [(ConnectRejects (LibError ''refused''), (None, None)),
       (DiscoveryTimeout, (None, None)), (DiscoveryTimeout, (None, None)),
       (ScanRejects (LibError ''scan''), (None, None)), (DiscoveryTimeout, (None, None)),
       (DiscoveryTimeout, (None, None))])) (startup True)) = 5 \<and>
   connectRetries (run (concat (map failing_round
      [(ConnectRejects (LibError ''refused''), (None, None)),
       (DiscoveryTimeout, (None, None)), (DiscoveryTimeout, (None, None)),
       (ScanRejects (LibError ''scan''), (None, None)), (DiscoveryTimeout, (None, None)),
       (DiscoveryTimeout, (None, None))])) (startup True)) = 5 \<and>
   attempts (run [RetryTimer, Tick None] (world0 True)) = attempts (world0 True) \<and>
   connectRetries (connectWithRetry_resume (DeviceAdded ''toy'') (None, None)
      ((startup True)\<lparr>connectRetries := 3\<rparr>)) = 0"
  using retry_bound
    [where fs = "[(ConnectRejects (LibError ''refused''), (None, None)),
       (DiscoveryTimeout, (None, None)), (DiscoveryTimeout, (None, None)),
       (ScanRejects (LibError ''scan''), (None, None)), (DiscoveryTimeout, (None, None)),
       (DiscoveryTimeout, (None, None))]" and p = True and v = "world0 True"
       and evs = "[RetryTimer, Tick None]" and a = "DeviceAdded ''toy''"
       and env = "(None, None)" and w = "(startup True)\<lparr>connectRetries := 3\<rparr>"]
  by (simp add: CONNECTION_RETRIES_def world0_def startup_def connectWithRetry_start_def
        connectToButtplug_start_def do_call_def scanning_def)

section \<open>The connection supervisor\<close>

lemma bp_processHeartRate:
  "client (processHeartRate r w) = client w"
  "device (processHeartRate r w) = device w"
  "isConnected (processHeartRate r w) = isConnected w"
  by (simp_all add: processHeartRate_def on_def off_def do_call_def split: option.splits)

lemma bp_handleUIControl:
  "client (snd (handleUIControl a r w)) = client w"
  "device (snd (handleUIControl a r w)) = device w"
  "isConnected (snd (handleUIControl a r w)) = isConnected w"
  by (simp_all add: handleUIControl_def on_def off_def do_call_def split: option.splits)

lemma bp_update_heartRate:
  "client (update_heartRate name settings w) = client w"
  "device (update_heartRate name settings w) = device w"
  "isConnected (update_heartRate name settings w) = isConnected w"
  by (simp_all add: update_heartRate_def Let_def do_call_def split: option.splits)

lemma bp_onMessage:
  "client (snd (onMessage parsed w)) = client w"
  "device (snd (onMessage parsed w)) = device w"
  "isConnected (snd (onMessage parsed w)) = isConnected w"
  by (simp_all add: onMessage_def do_call_def bp_update_heartRate
        split: option.splits sum.splits)

lemma bp_safeDisconnect:
  "(client (safeDisconnect env w) = client w \<and> device (safeDisconnect env w) = device w \<and>
    isConnected (safeDisconnect env w) = isConnected w \<and> client w = None) \<or>
   (client (safeDisconnect env w) = None \<and> device (safeDisconnect env w) = None \<and>
    \<not> isConnected (safeDisconnect env w))"
  by (simp add: safeDisconnect_def Let_def do_call_def split: prod.splits)

lemma bp_off:
  "client (snd (off r w)) = client w"
  "device (snd (off r w)) = device w"
  "isConnected (snd (off r w)) = isConnected w"
  by (simp_all add: off_def do_call_def)

lemma bp_gracefulShutdown:
  "(client (gracefulShutdown env w) = client w \<and>
    device (gracefulShutdown env w) = device w \<and>
    isConnected (gracefulShutdown env w) = isConnected w) \<or>
   (client (gracefulShutdown env w) = None \<and> device (gracefulShutdown env w) = None \<and>
    \<not> isConnected (gracefulShutdown env w))"
proof (cases "shutdownInProgress w")
  case True
  then show ?thesis by (simp add: gracefulShutdown_def)
next
  case False
  let ?w0 = "do_call ClearInterval (w\<lparr>shutdownInProgress := True\<rparr>)"
  let ?r = "if truthy (isReady ?w0) \<and> vibrationState ?w0 = ''on'' then off (off_r env) ?w0
            else (None, ?w0)"
  obtain e w1 where p: "?r = (e, w1)"
    by (cases ?r)
  have "client (snd ?r) = client w \<and> device (snd ?r) = device w \<and>
        isConnected (snd ?r) = isConnected w"
    by (simp add: bp_off) (simp add: do_call_def)
  with p have w1: "client w1 = client w" "device w1 = device w" "isConnected w1 = isConnected w"
    by simp_all
  have g: "gracefulShutdown env w =
    (case e of Some x \<Rightarrow> do_call (ProcessExit 1) w1
     | None \<Rightarrow>
         let w2 = disconnectButtplug (disc_env env) w1; w3 = do_call WssClose w2
         in (case close_r env of
               Some x \<Rightarrow> do_call (ProcessExit 1) w3
             | None \<Rightarrow>
                 if buttplugProc w3 then
                   (case kill_r env of
                      Some x \<Rightarrow> do_call (ProcessExit 1) (do_call ProcKill w3)
                    | None \<Rightarrow> do_call (ProcessExit 0) (do_call ProcKill w3))
                 else do_call (ProcessExit 0) w3))"
    using False p by (simp add: gracefulShutdown_def Let_def)
  show ?thesis
    unfolding g using w1 bp_safeDisconnect [of "disc_env env" w1]
    by (auto simp add: Let_def do_call_def disconnectButtplug_def split: option.splits)
qed


lemma connect_catch_disconnected:
  assumes "module_inv w"
  shows "device (snd (connect_catch e env w)) = None"
    and "\<not> isConnected (snd (connect_catch e env w))"
  using assms
  by (simp_all add: connect_catch_def Let_def safeDisconnect_def do_call_def module_inv_def
        split: prod.splits)

lemma module_inv_scanning: "module_inv (scanning w)" "module_inv (do_call c (scanning w))"
  by (simp_all add: module_inv_def scanning_def do_call_def)

lemma resume_failure_disconnected:
  assumes "module_inv w" and "fst (connectToButtplug_resume a env w) = Some e"
  shows "client (snd (connectToButtplug_resume a env w)) = None"
    and "device (snd (connectToButtplug_resume a env w)) = None"
    and "\<not> isConnected (snd (connectToButtplug_resume a env w))"
    and "\<not> isConnecting (snd (connectToButtplug_resume a env w))"
    and "pendingRetries (snd (connectToButtplug_resume a env w)) = pendingRetries w"
proof -
  have "client (snd (connectToButtplug_resume a env w)) = None \<and>
        device (snd (connectToButtplug_resume a env w)) = None \<and>
        \<not> isConnected (snd (connectToButtplug_resume a env w)) \<and>
        \<not> isConnecting (snd (connectToButtplug_resume a env w)) \<and>
        pendingRetries (snd (connectToButtplug_resume a env w)) = pendingRetries w"
  proof (cases "client w = None")
    case True
    with assms(1) show ?thesis
      by (cases a) (simp_all add: connect_catch_fields connect_catch_disconnected)
  next
    case False
    have pend: "pendingRetries (scanning w) = pendingRetries w"
      "pendingRetries (do_call StopScanning (scanning w)) = pendingRetries w"
      by (simp_all add: scanning_def do_call_def)
    from False obtain b where "client w = Some b" by auto
    with assms show ?thesis
      by (cases a)
        (simp_all add: connect_catch_fields connect_catch_disconnected module_inv_scanning pend)
  qed
  then show "client (snd (connectToButtplug_resume a env w)) = None"
    and "device (snd (connectToButtplug_resume a env w)) = None"
    and "\<not> isConnected (snd (connectToButtplug_resume a env w))"
    and "\<not> isConnecting (snd (connectToButtplug_resume a env w))"
    and "pendingRetries (snd (connectToButtplug_resume a env w)) = pendingRetries w"
    by simp_all
qed

lemma resume_success_connected:
  assumes "fst (connectToButtplug_resume a env w) = None"
  shows "client (snd (connectToButtplug_resume a env w)) \<noteq> None"
    and "isConnected (snd (connectToButtplug_resume a env w))"
    and "\<not> isConnecting (snd (connectToButtplug_resume a env w))"
    and "pendingRetries (snd (connectToButtplug_resume a env w)) = pendingRetries w"
proof -
  from assms obtain d b where a: "a = DeviceAdded d" and c: "client w = Some b"
    by (cases a; cases "client w") (simp_all add: connect_catch_fields)
  then show "client (snd (connectToButtplug_resume a env w)) \<noteq> None"
    and "isConnected (snd (connectToButtplug_resume a env w))"
    and "\<not> isConnecting (snd (connectToButtplug_resume a env w))"
    and "pendingRetries (snd (connectToButtplug_resume a env w)) = pendingRetries w"
    by (simp_all add: scanning_def do_call_def)
qed

lemma inv_connectWithRetry_catch:
  assumes "\<not> isConnecting w" and "\<not> isConnected w" and "pendingRetries w = 0"
  shows "chain_inv (connectWithRetry_catch w)"
    and "module_inv w \<Longrightarrow> module_inv (connectWithRetry_catch w)"
  using assms
  by (simp_all add: connectWithRetry_catch_def Let_def do_call_def chain_inv_def
        module_inv_def)

lemma inv_connectWithRetry_resume:
  assumes "chain_inv w" and "module_inv w" and "isConnecting w"
  shows "chain_inv (connectWithRetry_resume a env w) \<and>
         module_inv (connectWithRetry_resume a env w)"
proof -
  obtain r w1 where p: "connectToButtplug_resume a env w = (r, w1)"
    by (cases "connectToButtplug_resume a env w")
  from assms have pend: "pendingRetries w = 0"
    by (simp add: chain_inv_def)
  show ?thesis
  proof (cases r)
    case None
    with p resume_success_connected [of a env w] pend
    have "client w1 \<noteq> None" "isConnected w1" "\<not> isConnecting w1" "pendingRetries w1 = 0"
      by simp_all
    with p None show ?thesis
      by (simp add: connectWithRetry_resume_def chain_inv_def module_inv_def)
  next
    case (Some e)
    with p resume_failure_disconnected [OF assms(2), of a env e] pend
    have w1: "client w1 = None" "device w1 = None" "\<not> isConnected w1" "\<not> isConnecting w1"
      "pendingRetries w1 = 0"
      by simp_all
    then have "module_inv w1" by (simp add: module_inv_def)
    with p Some w1 show ?thesis
      by (simp add: connectWithRetry_resume_def inv_connectWithRetry_catch)
  qed
qed

lemma inv_connectWithRetry_start:
  assumes "\<not> isConnecting w" and "\<not> isConnected w" and "pendingRetries w = 0"
    and "module_inv w"
  shows "chain_inv (connectWithRetry_start w) \<and> module_inv (connectWithRetry_start w)"
  using assms
  by (simp add: connectWithRetry_start_def connectToButtplug_start_def do_call_def
        chain_inv_def module_inv_def)

lemma inv_dispatch:
  assumes "chain_inv w" and "module_inv w"
  shows "chain_inv (dispatch ev w) \<and> module_inv (dispatch ev w)"
proof (cases ev)
  case (Tick r)
  with assms show ?thesis
    by (simp add: chain_inv_def module_inv_def bp_processHeartRate idle_processHeartRate)
next
  case (Message parsed env)
  obtain r w1 where p: "onMessage parsed w = (r, w1)"
    by (cases "onMessage parsed w")
  with assms bp_onMessage [of parsed w] idle_onMessage [of parsed w]
  have w1: "chain_inv w1" "module_inv w1"
    by (simp_all add: chain_inv_def module_inv_def)
  with bp_gracefulShutdown [of env w1] idle_gracefulShutdown [of env w1]
  have "chain_inv (gracefulShutdown env w1) \<and> module_inv (gracefulShutdown env w1)"
    by (auto simp add: chain_inv_def module_inv_def)
  with Message p w1 show ?thesis
    by (cases r) simp_all
next
  case (UIControl action r)
  with assms show ?thesis
    by (simp add: chain_inv_def module_inv_def bp_handleUIControl idle_handleUIControl)
next
  case RetryTimer
  show ?thesis
  proof (cases "pendingRetries w = 0")
    case True
    with RetryTimer assms show ?thesis by simp
  next
    case False
    with assms have "pendingRetries w = 1" "\<not> isConnecting w" "\<not> isConnected w"
      by (auto simp add: chain_inv_def)
    with assms(2) RetryTimer
      inv_connectWithRetry_start [of "w\<lparr>pendingRetries := pendingRetries w - 1\<rparr>"]
    show ?thesis
      by (simp add: module_inv_def)
  qed
next
  case (AttemptDone a env)
  with assms inv_connectWithRetry_resume [of w a env] show ?thesis
    by simp
next
  case ConnectionDropped
  with assms show ?thesis
    by (simp add: chain_inv_def module_inv_def)
next
  case (Signal env)
  with assms bp_gracefulShutdown [of env w] idle_gracefulShutdown [of env w]
  show ?thesis
    by (auto simp add: chain_inv_def module_inv_def)
qed

lemma inv_run: "chain_inv (run evs (startup p)) \<and> module_inv (run evs (startup p))"
proof (induction evs rule: rev_induct)
  case Nil
  show ?case
    by (simp add: run_def startup_def connectWithRetry_start_def connectToButtplug_start_def
          world0_def do_call_def chain_inv_def module_inv_def)
next
  case (snoc ev evs)
  then show ?case
    using inv_dispatch [of "run evs (startup p)" ev] by (simp add: run_snoc)
qed


lemma resume_clears_isConnecting:
  "\<not> isConnecting (snd (connectToButtplug_resume a env w))"
  by (cases a) (simp_all add: connect_catch_fields scanning_def do_call_def)

lemma exclusive_start:
  assumes "\<not> (isConnecting w \<and> isConnected w)" and "isConnected w \<longrightarrow> client w = Some True"
  shows "\<not> (isConnecting (snd (connectToButtplug_start w)) \<and>
            isConnected (snd (connectToButtplug_start w)))"
  using assms by (auto simp add: connectToButtplug_start_def do_call_def)

lemma exclusive_safeDisconnect:
  assumes "\<not> (isConnecting w \<and> isConnected w)"
  shows "\<not> (isConnecting (safeDisconnect env w) \<and> isConnected (safeDisconnect env w))"
  using assms bp_safeDisconnect [of env w]
  by (auto simp add: idle_safeDisconnect)

text \<open>
  C8 (as amended). In every state the program reaches, an attempt in flight included, at
  most one of \<open>isConnecting\<close> and \<open>isConnected\<close> holds. Of the operations of the module,
  \<open>safeDisconnect\<close> and \<open>disconnectButtplug\<close> keep it so from any state; the start of
  \<open>connectToButtplug\<close>, up to its first \<open>await\<close>, keeps it so from a state where
  \<open>isConnected\<close>, if set, goes with a connected client; and the end of an attempt always
  leaves \<open>isConnecting\<close> false.
\<close>

theorem connection_flags_exclusive:
  "\<not> (isConnecting (run evs (startup p)) \<and> isConnected (run evs (startup p))) \<and>
   (\<not> (isConnecting w \<and> isConnected w) \<and> (isConnected w \<longrightarrow> client w = Some True) \<longrightarrow>
      \<not> (isConnecting (snd (connectToButtplug_start w)) \<and>
         isConnected (snd (connectToButtplug_start w)))) \<and>
   \<not> isConnecting (snd (connectToButtplug_resume a env w)) \<and>
   (\<not> (isConnecting w \<and> isConnected w) \<longrightarrow>
      \<not> (isConnecting (safeDisconnect env w) \<and> isConnected (safeDisconnect env w)) \<and>
      \<not> (isConnecting (disconnectButtplug env w) \<and> isConnected (disconnectButtplug env w)))"
proof -
  have "chain_inv (run evs (startup p))"
    by (simp add: inv_run)
  then have "\<not> (isConnecting (run evs (startup p)) \<and> isConnected (run evs (startup p)))"
    by (auto simp add: chain_inv_def)
  then show ?thesis
    using exclusive_start [of w] exclusive_safeDisconnect [of w env]
      resume_clears_isConnecting [of a env w]
    by (simp add: disconnectButtplug_def)
qed

theorem connection_flags_exclusive_witness:
  "isConnected (run [AttemptDone (DeviceAdded ''toy'') (None, None)] (startup True)) \<and>
   client (run [AttemptDone (DeviceAdded ''toy'') (None, None)] (startup True)) = Some True \<and>
   \<not> isConnecting (run [AttemptDone (DeviceAdded ''toy'') (None, None)] (startup True)) \<and>
   \<not> isConnecting (snd (connectToButtplug_start
       (run [AttemptDone (DeviceAdded ''toy'') (None, None)] (startup True)))) \<and>
   \<not> isConnected (safeDisconnect (None, None)
       (run [AttemptDone (DeviceAdded ''toy'') (None, None)] (startup True)))"
  using connection_flags_exclusive
    [where evs = "[AttemptDone (DeviceAdded ''toy'') (None, None)]" and p = True
       and w = "run [AttemptDone (DeviceAdded ''toy'') (None, None)] (startup True)"
       and a = DiscoveryTimeout and env = "(None, None)"]
  by (simp add: run_def startup_def connectWithRetry_start_def connectToButtplug_start_def
        connectWithRetry_resume_def world0_def scanning_def do_call_def safeDisconnect_def)

text \<open>
  C8 as stated fails for \<open>connectToButtplug\<close>: the module does not hear of a connection
  that the server drops, so \<open>isConnected\<close> stays set over a client that is no longer
  connected. From that state, where one flag holds, a call of \<open>connectToButtplug\<close> sets
  \<open>isConnecting\<close> and leaves \<open>isConnected\<close> set for as long as the attempt is in flight.
  The program makes no such call, its only calls being the first one and those of the
  retry timer.
\<close>

theorem reconnect_after_drop_counterexample:
  "\<not> (isConnecting
        (run [AttemptDone (DeviceAdded ''toy'') (None, None), ConnectionDropped] (startup True)) \<and>
      isConnected
        (run [AttemptDone (DeviceAdded ''toy'') (None, None), ConnectionDropped] (startup True))) \<and>
   isConnecting (snd (connectToButtplug_start
     (run [AttemptDone (DeviceAdded ''toy'') (None, None), ConnectionDropped] (startup True)))) \<and>
   isConnected (snd (connectToButtplug_start
     (run [AttemptDone (DeviceAdded ''toy'') (None, None), ConnectionDropped] (startup True))))"
  by (simp add: run_def startup_def connectWithRetry_start_def connectToButtplug_start_def
        connectWithRetry_resume_def world0_def scanning_def do_call_def)

lemma isReady_no_client: "client w = None \<Longrightarrow> isReady w = JNull"
  by (simp add: isReady_def)

lemma failed_call_disconnected:
  assumes "connectToButtplug a env w = (Some e, w')" and "e \<noteq> ConnectionBusy"
  shows "client w' = None \<and> device w' = None \<and> \<not> isConnected w' \<and> isReady w' = JNull"
proof -
  let ?w1 = "do_call ClientConnect
               (w\<lparr>isConnecting := True, lastError := None, client := Some False\<rparr>)"
  from assms have r: "connectToButtplug_resume a env ?w1 = (Some e, w')"
    by (simp add: connectToButtplug_def connectToButtplug_start_def split: if_splits)
  have "module_inv ?w1"
    by (simp add: module_inv_def do_call_def)
  from resume_failure_disconnected [OF this, of a env e] r show ?thesis
    by (simp add: isReady_no_client)
qed

text \<open>
  A call of \<open>connectToButtplug\<close> that rejects with anything but the busy error leaves
  \<open>client\<close> and \<open>device\<close> at \<open>null\<close> and \<open>isConnected\<close> false. The same holds when the
  attempt ends in a state that the program has reached through other events in the
  meantime, a shutdown that disconnected the module included. What \<open>isReady()\<close> returns
  then is \<open>null\<close>.
\<close>

lemma failed_connect_leaves_nothing:
  "(connectToButtplug a env w = (Some e, w') \<and> e \<noteq> ConnectionBusy \<longrightarrow>
      client w' = None \<and> device w' = None \<and> \<not> isConnected w' \<and> isReady w' = JNull) \<and>
   (connectToButtplug_resume a env (run evs (startup p)) = (Some e, v') \<longrightarrow>
      client v' = None \<and> device v' = None \<and> \<not> isConnected v' \<and> isReady v' = JNull)"
proof -
  have "module_inv (run evs (startup p))"
    by (simp add: inv_run)
  from resume_failure_disconnected [OF this, of a env e]
  have "connectToButtplug_resume a env (run evs (startup p)) = (Some e, v') \<longrightarrow>
      client v' = None \<and> device v' = None \<and> \<not> isConnected v' \<and> isReady v' = JNull"
    by (auto simp add: isReady_no_client)
  with failed_call_disconnected [of a env w e w'] show ?thesis
    by blast
qed

text \<open>
  C10. After a call of \<open>connectToButtplug\<close> that rejects because no device was found,
  \<open>client\<close> and \<open>device\<close> are \<open>null\<close> and \<open>isConnected\<close> is false, as the claim says; but
  \<open>isReady()\<close>, documented to return a boolean, returns \<open>null\<close> and not \<open>false\<close>.
\<close>

theorem failed_connect_isReady_null:
  "fst (connectToButtplug DiscoveryTimeout (None, None) (world0 True)) = Some NoDeviceFound \<and>
   client (snd (connectToButtplug DiscoveryTimeout (None, None) (world0 True))) = None \<and>
   device (snd (connectToButtplug DiscoveryTimeout (None, None) (world0 True))) = None \<and>
   \<not> isConnected (snd (connectToButtplug DiscoveryTimeout (None, None) (world0 True))) \<and>
   isReady (snd (connectToButtplug DiscoveryTimeout (None, None) (world0 True))) = JNull \<and>
   isReady (snd (connectToButtplug DiscoveryTimeout (None, None) (world0 True))) \<noteq> JBool False"
  by (simp add: world0_def connectToButtplug_def connectToButtplug_start_def scanning_def
        do_call_def connect_catch_def safeDisconnect_def Let_def isReady_def)

end
